theory Spec2Isabelle
  imports Main "HOL-Library.Sublist"
begin

section \<open>The outcomes import tool (outcomes-import.go)\<close>

text \<open>
  A shallow embedding of the command-line client in \<^verbatim>\<open>outcomes-import.go\<close>.
  Go strings are byte sequences and are modelled as \<^typ>\<open>string\<close>; the Go type
  \<^verbatim>\<open>int\<close> is modelled as \<^typ>\<open>int\<close>, since the program only compares
  migration ids with zero and prints them.

  Several Go structs share field names (\<^verbatim>\<open>config.Apikey\<close> and
  \<^verbatim>\<open>request.Apikey\<close>, \<^verbatim>\<open>migrationStatus.Id\<close> and \<^verbatim>\<open>migrationIssue.Id\<close>, ...).
  Each record field therefore carries a two-letter prefix naming its struct:
  \<open>cf\<close> for \<^verbatim>\<open>config\<close>, \<open>rq\<close> for \<^verbatim>\<open>request\<close>, \<open>ig\<close> for
  \<^verbatim>\<open>importableGuid\<close>, \<open>mi\<close> for \<^verbatim>\<open>migrationIssue\<close>, \<open>ms\<close> for
  \<^verbatim>\<open>migrationStatus\<close> and \<open>ni\<close> for \<^verbatim>\<open>newImport\<close>.
\<close>

subsection \<open>Data model\<close>

definition ConfigFile :: string where
  "ConfigFile = ''.outcomes-import.conf''"

record config =
  cfApikey :: string
  cfMigrationId :: int
  cfDomain :: string

record request =
  rqBody :: string
  rqApikey :: string
  rqDomain :: string
  rqMethod :: string
  rqEndpoint :: string

record importableGuid =
  igTitle :: string
  igGuid :: string

record migrationIssue =
  miId :: int
  miIssueType :: string
  miDescription :: string
  miErrorReportUrl :: string
  miErrorMessage :: string

record migrationStatus =
  msId :: int
  msWorkflowState :: string
  msMigrationIssuesCount :: int
  msMigrationIssues :: "migrationIssue list"

record newImport =
  niMigrationId :: int
  niGuid :: string

text \<open>
  The values of the five command-line flags after \<^verbatim>\<open>flag.Parse()\<close>; a flag that was
  not given holds its default (the empty string, \<open>0\<close>, \<open>False\<close>).
\<close>

record flags =
  flag_apikey :: string
  flag_domain :: string
  flag_status :: int
  flag_available :: bool
  flag_guid :: string

subsection \<open>The world the program runs in\<close>

text \<open>
  The configuration file as the program observes it: \<^verbatim>\<open>os.Open\<close> fails (\<open>NoFile\<close>),
  the file opens but the JSON decoder rejects it with an error text (\<open>BadJson\<close>), or it
  decodes to a \<^verbatim>\<open>config\<close> value (\<open>JsonFile\<close>). A file is thus identified with
  what the decoder reads from it. The JSON text stores strings as valid UTF-8, so the
  value read back from a written file can differ from the value that was marshalled; see
  \<open>json_MarshalIndent\<close> below.
\<close>

datatype conf_file = NoFile | BadJson string | JsonFile config

text \<open>
  What the \<^verbatim>\<open>log\<close> package and \<^verbatim>\<open>flag.Usage()\<close> write to standard error: the
  usage text, or one logged message.
\<close>

datatype log_line = Usage | Log string

text \<open>The HTTP request built by \<^verbatim>\<open>http.NewRequest\<close> plus the Authorization header.\<close>

record hrequest =
  hMethod :: string
  hURL :: string
  hBody :: string
  hAuthorization :: string

record world =
  conf :: conf_file
  stdout :: string
  stderr :: "log_line list"
  sent :: "hrequest list"

text \<open>
  How the process can stop early: \<^verbatim>\<open>log.Fatalln\<close> prints and calls
  \<^verbatim>\<open>os.Exit(1)\<close>; dereferencing a nil pointer is a run-time panic, which ends a Go
  program with exit status 2 (the trace the run-time prints is not part of the model).
  A run that reaches the end of \<^verbatim>\<open>main\<close> exits with 0.
\<close>

datatype exit = Fatal | Panic

fun exit_status :: "exit + 'a \<Rightarrow> nat" where
  "exit_status (Inr _) = 0"
| "exit_status (Inl Fatal) = 1"
| "exit_status (Inl Panic) = 2"

text \<open>
  The answer to one HTTP exchange, as the program distinguishes it: \<^verbatim>\<open>client.Do\<close>
  returns an error, the body does not decode into the expected Go type, or it decodes.
\<close>

datatype 'a reply = TransportError string | DecodeError string | Decoded 'a

text \<open>
  Everything outside the program: the \<^verbatim>\<open>HOME\<close> variable, whether
  \<^verbatim>\<open>http.NewRequest\<close> rejects a method and URL (with which error), how a parsed URL
  prints, whether \<^verbatim>\<open>ioutil.WriteFile\<close> fails (with which error, and in which state it
  leaves the file), and the remote server's answers.
\<close>

record env =
  HOME :: string
  NewRequest_error :: "string \<Rightarrow> string \<Rightarrow> string option"
  URL_String :: "string \<Rightarrow> string"
  WriteFile_error :: "(string \<times> conf_file) option"
  Do_available :: "hrequest \<Rightarrow> importableGuid list reply"
  Do_status :: "hrequest \<Rightarrow> migrationStatus reply"
  Do_import :: "hrequest \<Rightarrow> newImport reply"

subsection \<open>Library functions the program calls\<close>

text \<open>\<^verbatim>\<open>strings.HasPrefix\<close>, \<^verbatim>\<open>strings.HasSuffix\<close> and \<^verbatim>\<open>strings.TrimSuffix\<close>.\<close>

definition HasPrefix :: "string \<Rightarrow> string \<Rightarrow> bool" where
  "HasPrefix s pre = (length pre \<le> length s \<and> take (length pre) s = pre)"

definition HasSuffix :: "string \<Rightarrow> string \<Rightarrow> bool" where
  "HasSuffix s suf = (length suf \<le> length s \<and> drop (length s - length suf) s = suf)"

definition TrimSuffix :: "string \<Rightarrow> string \<Rightarrow> string" where
  "TrimSuffix s suf = (if HasSuffix s suf then take (length s - length suf) s else s)"

text \<open>The verb \<^verbatim>\<open>%d\<close> of \<^verbatim>\<open>fmt\<close>: decimal digits, with a minus sign below zero.\<close>

fun dec :: "nat \<Rightarrow> string" where
  "dec n = (if n < 10 then [''0123456789'' ! n]
            else dec (n div 10) @ [''0123456789'' ! (n mod 10)])"

declare dec.simps [simp del]

definition fmt_d :: "int \<Rightarrow> string" where
  "fmt_d i = (if i < 0 then ''-'' @ dec (nat (- i)) else dec (nat i))"

abbreviation nl :: string where
  "nl \<equiv> [CHR 0x0A]"

definition fmt_Print :: "string \<Rightarrow> world \<Rightarrow> world" where
  "fmt_Print s w = w\<lparr>stdout := stdout w @ s\<rparr>"

definition log_Print :: "string \<Rightarrow> world \<Rightarrow> world" where
  "log_Print msg w = w\<lparr>stderr := stderr w @ [Log msg]\<rparr>"

definition log_Fatalln :: "string \<Rightarrow> world \<Rightarrow> (exit + 'a) \<times> world" where
  "log_Fatalln msg w = (Inl Fatal, log_Print msg w)"

definition flag_Usage :: "world \<Rightarrow> world" where
  "flag_Usage w = w\<lparr>stderr := stderr w @ [Usage]\<rparr>"

text \<open>
  How \<^verbatim>\<open>encoding/json\<close> treats a Go string. The encoder walks the bytes with
  \<^verbatim>\<open>utf8.DecodeRuneInString\<close>: a byte below \<open>0x80\<close> and a valid multi-byte encoding
  are written so that the decoder reads the same bytes back (escapes included); a byte at
  which no valid encoding starts is written as the escape of U+FFFD, which the decoder reads back
  as the three bytes \<open>EF BF BD\<close> of U+FFFD, and the walk goes on with the next byte.

  \<open>leadByte\<close> is the table of \<^verbatim>\<open>unicode/utf8\<close> for the first byte of a multi-byte
  encoding: its length and the range allowed for the second byte (which excludes overlong
  forms, surrogates and code points above U+10FFFF). \<open>DecodeRune_size\<close> is the width of
  the valid multi-byte encoding at the head of a string, or \<open>None\<close> where
  \<^verbatim>\<open>DecodeRuneInString\<close> returns \<^verbatim>\<open>RuneError\<close> with width 1.
\<close>

definition leadByte :: "nat \<Rightarrow> (nat \<times> nat \<times> nat) option" where
  "leadByte b =
     (if 0xC2 \<le> b \<and> b \<le> 0xDF then Some (2, 0x80, 0xBF)
      else if b = 0xE0 then Some (3, 0xA0, 0xBF)
      else if 0xE1 \<le> b \<and> b \<le> 0xEC then Some (3, 0x80, 0xBF)
      else if b = 0xED then Some (3, 0x80, 0x9F)
      else if b = 0xEE \<or> b = 0xEF then Some (3, 0x80, 0xBF)
      else if b = 0xF0 then Some (4, 0x90, 0xBF)
      else if 0xF1 \<le> b \<and> b \<le> 0xF3 then Some (4, 0x80, 0xBF)
      else if b = 0xF4 then Some (4, 0x80, 0x8F)
      else None)"

definition DecodeRune_size :: "string \<Rightarrow> nat option" where
  "DecodeRune_size s =
     (case s of
        [] \<Rightarrow> None
      | c # cs \<Rightarrow>
          (case leadByte (of_char c) of
             None \<Rightarrow> None
           | Some (sz, lo, hi) \<Rightarrow>
               if length s < sz then None
               else if (of_char (s ! 1) :: nat) < lo \<or> hi < of_char (s ! 1) then None
               else if sz \<le> 2 then Some 2
               else if (of_char (s ! 2) :: nat) < 0x80 \<or> 0xBF < (of_char (s ! 2) :: nat)
                 then None
               else if sz \<le> 3 then Some 3
               else if (of_char (s ! 3) :: nat) < 0x80 \<or> 0xBF < (of_char (s ! 3) :: nat)
                 then None
               else Some 4))"

text \<open>
  The string that the decoder reads back from the encoding of \<open>s\<close>: \<open>s\<close> itself when
  it is valid UTF-8, and otherwise \<open>s\<close> with U+FFFD in place of every byte that is not
  part of a valid encoding.
\<close>

fun json_string :: "string \<Rightarrow> string" where
  "json_string [] = []"
| "json_string (c # cs) =
     (if (of_char c :: nat) < 0x80 then c # json_string cs
      else case DecodeRune_size (c # cs) of
             None \<Rightarrow> [CHR 0xEF, CHR 0xBF, CHR 0xBD] @ json_string cs
           | Some sz \<Rightarrow> c # take (sz - 1) cs @ json_string (drop (sz - 1) cs))"

text \<open>
  \<^verbatim>\<open>json.MarshalIndent\<close> of a \<^verbatim>\<open>config\<close>: a struct of two strings and an integer
  always marshals, so the error branch of the caller is never taken. The result is given
  as the state of a file that holds the marshalled text: it decodes to the \<^verbatim>\<open>config\<close>
  with the same migration id and with both strings as JSON stores them.
\<close>

definition json_MarshalIndent :: "config \<Rightarrow> string + conf_file" where
  "json_MarshalIndent c =
     Inr (JsonFile (c\<lparr>cfApikey := json_string (cfApikey c),
                       cfDomain := json_string (cfDomain c)\<rparr>))"

text \<open>
  \<^verbatim>\<open>ioutil.WriteFile\<close>: returns its error, if any, together with the new world.
\<close>

definition ioutil_WriteFile :: "env \<Rightarrow> conf_file \<Rightarrow> world \<Rightarrow> string option \<times> world" where
  "ioutil_WriteFile e b w =
     (case WriteFile_error e of
        None \<Rightarrow> (None, w\<lparr>conf := b\<rparr>)
      | Some (err, left) \<Rightarrow> (Some err, w\<lparr>conf := left\<rparr>))"

text \<open>\<^verbatim>\<open>client.Do\<close> puts the request on the wire.\<close>

definition client_Do :: "hrequest \<Rightarrow> world \<Rightarrow> world" where
  "client_Do hreq w = w\<lparr>sent := sent w @ [hreq]\<rparr>"

subsection \<open>The configuration store\<close>

definition configFile :: "env \<Rightarrow> string" where
  "configFile e = HOME e @ ''/'' @ ConfigFile"

definition configFromFile :: "world \<Rightarrow> (exit + config option) \<times> world" where
  "configFromFile w =
     (case conf w of
        JsonFile cf \<Rightarrow> (Inr (Some cf), w)
      | BadJson err \<Rightarrow> log_Fatalln (''Config file json error: '' @ err) w
      | NoFile \<Rightarrow> (Inr None, w))"

text \<open>
  \<^verbatim>\<open>writeToFile\<close> reads \<^verbatim>\<open>current.Apikey\<close> without testing \<^verbatim>\<open>current\<close> for
  nil, and drops the error that \<^verbatim>\<open>ioutil.WriteFile\<close> returns.
\<close>

definition writeToFile :: "env \<Rightarrow> config \<Rightarrow> world \<Rightarrow> (exit + unit) \<times> world" where
  "writeToFile e c w =
     (case configFromFile w of
        (Inl x, w1) \<Rightarrow> (Inl x, w1)
      | (Inr None, w1) \<Rightarrow> (Inl Panic, w1)
      | (Inr (Some current), w1) \<Rightarrow>
          (let c1 = (if cfApikey current = '''' then c\<lparr>cfApikey := ''''\<rparr> else c) in
           case json_MarshalIndent c1 of
             Inl err \<Rightarrow> log_Fatalln (''Error writing to '' @ configFile e) w1
           | Inr b \<Rightarrow> (Inr (), snd (ioutil_WriteFile e b w1))))"

subsection \<open>Domain normalisation and request checks\<close>

definition normalizeDomain :: "string \<Rightarrow> string" where
  "normalizeDomain domain =
     (let retval = domain in
      if domain = ''localhost'' then ''http://localhost:3000''
      else
        (let retval =
           (if \<not> HasPrefix retval ''http'' then
              (let retval = ''https://'' @ retval in
               if \<not> HasSuffix retval ''com'' \<and> \<not> HasSuffix retval ''/''
               then retval @ ''.instructure.com'' else retval)
            else retval)
         in TrimSuffix retval ''/''))"

definition errAndExit :: "string \<Rightarrow> world \<Rightarrow> (exit + 'a) \<times> world" where
  "errAndExit message w = log_Fatalln message (flag_Usage w)"

definition verifyRequest :: "request \<Rightarrow> world \<Rightarrow> (exit + unit) \<times> world" where
  "verifyRequest req w =
     (if rqApikey req = '''' then errAndExit ''You need a valid canvas API key'' w
      else if rqDomain req = '''' then errAndExit ''You must supply a canvas domain'' w
      else (Inr (), w))"

definition httpRequest :: "env \<Rightarrow> request \<Rightarrow> world \<Rightarrow> (exit + hrequest) \<times> world" where
  "httpRequest e req w =
     (case NewRequest_error e (rqMethod req) (rqDomain req @ rqEndpoint req) of
        Some err \<Rightarrow> log_Fatalln err w
      | None \<Rightarrow>
          (Inr \<lparr>hMethod = rqMethod req,
                hURL = rqDomain req @ rqEndpoint req,
                hBody = rqBody req,
                hAuthorization = ''Bearer '' @ rqApikey req\<rparr>, w))"

subsection \<open>Presentation\<close>

fun printGuidLines :: "importableGuid list \<Rightarrow> world \<Rightarrow> world" where
  "printGuidLines [] w = w"
| "printGuidLines (guid # rest) w =
     printGuidLines rest (fmt_Print (igGuid guid @ '' - '' @ igTitle guid @ nl) w)"

definition printImportableGuids :: "importableGuid list \<Rightarrow> world \<Rightarrow> world" where
  "printImportableGuids guids w =
     printGuidLines guids (fmt_Print (''GUIDs available to import:'' @ nl @ nl) w)"

fun printIssues :: "migrationIssue list \<Rightarrow> world \<Rightarrow> world" where
  "printIssues [] w = w"
| "printIssues (val # rest) w =
     printIssues rest
       (fmt_Print (''   - Description: '' @ miDescription val @ nl)
       (fmt_Print (''   - Error message: '' @ miErrorMessage val @ nl)
       (fmt_Print (''   - Issue type: '' @ miIssueType val @ nl)
       (fmt_Print (''   - Link: '' @ miErrorReportUrl val @ nl)
       (fmt_Print (''   - ID: '' @ fmt_d (miId val) @ nl) w)))))"

definition printMigrationStatus :: "migrationStatus \<Rightarrow> world \<Rightarrow> world" where
  "printMigrationStatus mstatus w =
     (if msId mstatus = 0 then
        fmt_Print (nl @ ''The server returned an error.  Are you sure that migration ID exists?'' @ nl) w
      else
        printIssues (msMigrationIssues mstatus)
          (fmt_Print ('' - Migration issues:'' @ nl)
          (fmt_Print ('' - Migration issues count: '' @ fmt_d (msMigrationIssuesCount mstatus) @ nl)
          (fmt_Print ('' - Workflow state: '' @ msWorkflowState mstatus @ nl)
          (fmt_Print (nl @ ''Migration status for migration '' @ [CHR 0x27] @ fmt_d (msId mstatus)
                        @ [CHR 0x27] @ '':'' @ nl) w)))))"

definition printImportResults :: "newImport \<Rightarrow> world \<Rightarrow> world" where
  "printImportResults nimport w =
     fmt_Print (nl @ ''Migration ID is '' @ fmt_d (niMigrationId nimport) @ nl) w"

subsection \<open>The three API operations\<close>

definition getAvailable :: "env \<Rightarrow> request \<Rightarrow> world \<Rightarrow> (exit + importableGuid list) \<times> world" where
  "getAvailable e req0 w =
     (let req = req0\<lparr>rqBody := '''', rqMethod := ''GET'',
                      rqEndpoint := ''/api/v1/global/outcomes_import/available''\<rparr> in
      case httpRequest e req w of
        (Inl x, w1) \<Rightarrow> (Inl x, w1)
      | (Inr hreq, w1) \<Rightarrow>
          (let w2 = log_Print (''Requesting available guids from '' @ URL_String e (hURL hreq)) w1;
               w3 = client_Do hreq w2 in
           case Do_available e hreq of
             TransportError err \<Rightarrow> log_Fatalln err w3
           | DecodeError err \<Rightarrow> log_Fatalln err w3
           | Decoded guids \<Rightarrow> (Inr guids, w3)))"

definition printAvailable :: "env \<Rightarrow> request \<Rightarrow> world \<Rightarrow> (exit + unit) \<times> world" where
  "printAvailable e req w =
     (case getAvailable e req w of
        (Inl x, w1) \<Rightarrow> (Inl x, w1)
      | (Inr guids, w1) \<Rightarrow>
          (let w2 = printImportableGuids guids w1 in
           case configFromFile w2 of
             (Inl x, w3) \<Rightarrow> (Inl x, w3)
           | (Inr None, w3) \<Rightarrow> (Inl Panic, w3)
           | (Inr (Some stored), w3) \<Rightarrow>
               writeToFile e \<lparr>cfApikey = rqApikey req,
                               cfMigrationId = cfMigrationId stored,
                               cfDomain = rqDomain req\<rparr> w3))"

definition getStatus :: "env \<Rightarrow> request \<Rightarrow> int \<Rightarrow> world \<Rightarrow> (exit + unit) \<times> world" where
  "getStatus e req0 migrationId w =
     (let req = req0\<lparr>rqBody := '''', rqMethod := ''GET'',
                      rqEndpoint := ''/api/v1/global/outcomes_import/migration_status/''
                                      @ fmt_d migrationId\<rparr> in
      case httpRequest e req w of
        (Inl x, w1) \<Rightarrow> (Inl x, w1)
      | (Inr hreq, w1) \<Rightarrow>
          (let w2 = log_Print (''Retrieving status for migration '' @ fmt_d migrationId) w1;
               w3 = client_Do hreq w2 in
           case Do_status e hreq of
             TransportError err \<Rightarrow> log_Fatalln err w3
           | DecodeError err \<Rightarrow> log_Fatalln err w3
           | Decoded mstatus \<Rightarrow>
               writeToFile e \<lparr>cfApikey = rqApikey req,
                               cfMigrationId = migrationId,
                               cfDomain = rqDomain req\<rparr>
                 (printMigrationStatus mstatus w3)))"

text \<open>The loop of \<^verbatim>\<open>importGuid\<close> that looks the supplied value up among the titles.\<close>

fun titleToGuid :: "importableGuid list \<Rightarrow> string \<Rightarrow> string" where
  "titleToGuid [] guid = guid"
| "titleToGuid (val # rest) guid =
     (if igTitle val = guid then igGuid val else titleToGuid rest guid)"

definition importGuid :: "env \<Rightarrow> request \<Rightarrow> string \<Rightarrow> world \<Rightarrow> (exit + unit) \<times> world" where
  "importGuid e req0 guid0 w =
     (case getAvailable e req0 w of
        (Inl x, w1) \<Rightarrow> (Inl x, w1)
      | (Inr guids, w1) \<Rightarrow>
          (let guid = titleToGuid guids guid0;
               req = req0\<lparr>rqBody := ''guid='' @ guid, rqMethod := ''POST'',
                           rqEndpoint := ''/api/v1/global/outcomes_import/''\<rparr> in
           case httpRequest e req w1 of
             (Inl x, w2) \<Rightarrow> (Inl x, w2)
           | (Inr hreq, w2) \<Rightarrow>
               (let w3 = log_Print (''Requesting import of GUID '' @ guid) w2;
                    w4 = client_Do hreq w3 in
                case Do_import e hreq of
                  TransportError err \<Rightarrow> log_Fatalln err w4
                | DecodeError err \<Rightarrow> log_Fatalln err w4
                | Decoded nimport \<Rightarrow>
                    writeToFile e \<lparr>cfApikey = rqApikey req,
                                    cfMigrationId = niMigrationId nimport,
                                    cfDomain = rqDomain req\<rparr>
                      (printImportResults nimport w4))))"

subsection \<open>The entry point\<close>

text \<open>
  The first block of \<^verbatim>\<open>main\<close> after \<^verbatim>\<open>flag.Parse()\<close>: a flag left at its zero value
  is replaced by the stored value when a configuration file was read. The result is the
  api key, the migration id and the domain that the rest of \<^verbatim>\<open>main\<close> uses.
\<close>

definition mergeConfig :: "flags \<Rightarrow> config option \<Rightarrow> world \<Rightarrow> (string \<times> int \<times> string) \<times> world" where
  "mergeConfig fl stored w =
     (case stored of
        None \<Rightarrow> ((flag_apikey fl, flag_status fl, flag_domain fl), w)
      | Some cf \<Rightarrow>
          (let (apikey, w1) =
                 (if flag_apikey fl = ''''
                  then (cfApikey cf, log_Print ''Using API key from config file'' w)
                  else (flag_apikey fl, w));
               (status, w2) =
                 (if flag_status fl = 0
                  then (cfMigrationId cf, log_Print ''Using migration ID from config file'' w1)
                  else (flag_status fl, w1));
               (domain, w3) =
                 (if flag_domain fl = ''''
                  then (cfDomain cf, log_Print ''Using domain from config file'' w2)
                  else (flag_domain fl, w2))
           in ((apikey, status, domain), w3)))"

definition main :: "env \<Rightarrow> flags \<Rightarrow> world \<Rightarrow> (exit + unit) \<times> world" where
  "main e fl w =
     (case configFromFile w of
        (Inl x, w0) \<Rightarrow> (Inl x, w0)
      | (Inr stored, w0) \<Rightarrow>
          (case mergeConfig fl stored w0 of
             ((apikey, status, domain), w1) \<Rightarrow>
               (let req = \<lparr>rqBody = '''', rqApikey = apikey, rqDomain = domain,
                           rqMethod = '''', rqEndpoint = ''''\<rparr> in
                case verifyRequest req w1 of
                  (Inl x, w2) \<Rightarrow> (Inl x, w2)
                | (Inr u, w2) \<Rightarrow>
                    (let req1 = req\<lparr>rqDomain := normalizeDomain (rqDomain req)\<rparr> in
                     if flag_available fl then printAvailable e req1 w2
                     else if flag_guid fl \<noteq> '''' then importGuid e req1 (flag_guid fl) w2
                     else if status \<noteq> 0 then getStatus e req1 status w2
                     else log_Fatalln
                            ''No recent migration ID, and none specified to query status on'' w2))))"

subsection \<open>Vocabulary of the properties\<close>

text \<open>Removing one trailing slash, if there is one.\<close>

definition strip_slash :: "string \<Rightarrow> string" where
  "strip_slash r = (if suffix ''/'' r then butlast r else r)"

text \<open>
  The world at the start of the process: nothing printed, nothing logged, no request sent,
  and the configuration file in the given state.
\<close>

definition start :: "conf_file \<Rightarrow> world" where
  "start f = \<lparr>conf = f, stdout = '''', stderr = [], sent = []\<rparr>"

text \<open>
  The HTTP requests of the three operations, for a request value that carries the api key
  and the base URL: listing the available GUIDs, importing a GUID, and asking for the status
  of a migration.
\<close>

definition availableReq :: "request \<Rightarrow> hrequest" where
  "availableReq req =
     \<lparr>hMethod = ''GET'',
      hURL = rqDomain req @ ''/api/v1/global/outcomes_import/available'',
      hBody = '''',
      hAuthorization = ''Bearer '' @ rqApikey req\<rparr>"

definition importReq :: "request \<Rightarrow> string \<Rightarrow> hrequest" where
  "importReq req g =
     \<lparr>hMethod = ''POST'',
      hURL = rqDomain req @ ''/api/v1/global/outcomes_import/'',
      hBody = ''guid='' @ g,
      hAuthorization = ''Bearer '' @ rqApikey req\<rparr>"

definition statusReq :: "request \<Rightarrow> int \<Rightarrow> hrequest" where
  "statusReq req n =
     \<lparr>hMethod = ''GET'',
      hURL = rqDomain req @ ''/api/v1/global/outcomes_import/migration_status/'' @ fmt_d n,
      hBody = '''',
      hAuthorization = ''Bearer '' @ rqApikey req\<rparr>"

text \<open>The five lines printed for one migration issue.\<close>

definition issue_lines :: "migrationIssue \<Rightarrow> string" where
  "issue_lines i =
     ''   - ID: '' @ fmt_d (miId i) @ nl @
     ''   - Link: '' @ miErrorReportUrl i @ nl @
     ''   - Issue type: '' @ miIssueType i @ nl @
     ''   - Error message: '' @ miErrorMessage i @ nl @
     ''   - Description: '' @ miDescription i @ nl"

text \<open>
  The request value \<^verbatim>\<open>main\<close> hands to the operation it runs, built from the merged api
  key and domain.
\<close>

definition mainRequest :: "string \<Rightarrow> string \<Rightarrow> request" where
  "mainRequest apikey domain =
     \<lparr>rqBody = '''', rqApikey = apikey, rqDomain = normalizeDomain domain,
      rqMethod = '''', rqEndpoint = ''''\<rparr>"

text \<open>
  An environment for concrete runs: every request can be built, the file write succeeds,
  the server offers the packages \<^verbatim>\<open>Math\<close> (\<^verbatim>\<open>g1\<close>) and \<^verbatim>\<open>Science\<close> (\<^verbatim>\<open>g2\<close>),
  answers every status query with id \<open>0\<close> and every import with migration id \<open>42\<close>.
\<close>

definition demo_env :: env where
  "demo_env =
     \<lparr>HOME = ''/home/op'',
      NewRequest_error = (\<lambda>method url. None),
      URL_String = (\<lambda>url. url),
      WriteFile_error = None,
      Do_available = (\<lambda>h. Decoded [\<lparr>igTitle = ''Math'', igGuid = ''g1''\<rparr>,
                                     \<lparr>igTitle = ''Science'', igGuid = ''g2''\<rparr>]),
      Do_status = (\<lambda>h. Decoded \<lparr>msId = 0, msWorkflowState = '''',
                                   msMigrationIssuesCount = 0, msMigrationIssues = []\<rparr>),
      Do_import = (\<lambda>h. Decoded \<lparr>niMigrationId = 42, niGuid = ''g1''\<rparr>)\<rparr>"

section \<open>Properties\<close>

subsection \<open>The string functions of the Go library\<close>

lemma HasPrefix_prefix: "HasPrefix s p = prefix p s"
proof
  assume "HasPrefix s p"
  then have "s = p @ drop (length p) s"
    by (metis HasPrefix_def append_take_drop_id)
  then show "prefix p s" by (metis prefixI)
next
  assume "prefix p s"
  then obtain zs where "s = p @ zs" by (auto simp: prefix_def)
  then show "HasPrefix s p" by (simp add: HasPrefix_def)
qed

lemma HasSuffix_suffix: "HasSuffix s p = suffix p s"
proof
  assume "HasSuffix s p"
  then have "s = take (length s - length p) s @ p"
    by (metis HasSuffix_def append_take_drop_id)
  then show "suffix p s" by (metis suffixI)
next
  assume "suffix p s"
  then obtain zs where "s = zs @ p" by (auto simp: suffix_def)
  then show "HasSuffix s p" by (simp add: HasSuffix_def)
qed

lemma TrimSuffix_slash: "TrimSuffix s ''/'' = strip_slash s"
  by (simp add: TrimSuffix_def strip_slash_def HasSuffix_suffix butlast_conv_take)

text \<open>JSON stores a string of ASCII bytes as it is.\<close>

lemma json_string_ascii:
  "(\<forall>c \<in> set s. (of_char c :: nat) < 0x80) \<Longrightarrow> json_string s = s"
  by (induction s) auto

subsection \<open>Domain normalisation\<close>

text \<open>
  Claim C3. \<^verbatim>\<open>normalizeDomain\<close> maps \<^verbatim>\<open>localhost\<close> to \<^verbatim>\<open>http://localhost:3000\<close>,
  \<^verbatim>\<open>utah\<close> to \<^verbatim>\<open>https://utah.instructure.com\<close>, \<^verbatim>\<open>https://foo.com/\<close> to
  \<^verbatim>\<open>https://foo.com\<close> and \<^verbatim>\<open>custom.edu\<close> to \<^verbatim>\<open>https://custom.edu.instructure.com\<close>.
  For every other input than \<^verbatim>\<open>localhost\<close>: when the input does not start with
  \<^verbatim>\<open>http\<close>, \<^verbatim>\<open>https://\<close> is put in front and, when that result ends neither in
  \<^verbatim>\<open>com\<close> nor in a slash, \<^verbatim>\<open>.instructure.com\<close> is appended; an input that starts with
  \<^verbatim>\<open>http\<close> is taken as it is; in both cases one trailing slash is removed at the end.
\<close>

theorem normalizeDomain_rules:
  "normalizeDomain ''localhost'' = ''http://localhost:3000'' \<and>
   normalizeDomain ''utah'' = ''https://utah.instructure.com'' \<and>
   normalizeDomain ''https://foo.com/'' = ''https://foo.com'' \<and>
   normalizeDomain ''custom.edu'' = ''https://custom.edu.instructure.com'' \<and>
   (\<forall>d. d \<noteq> ''localhost'' \<longrightarrow>
      normalizeDomain d =
        strip_slash
          (if \<not> prefix ''http'' d then
             (if \<not> suffix ''com'' (''https://'' @ d) \<and> \<not> suffix ''/'' (''https://'' @ d)
              then (''https://'' @ d) @ ''.instructure.com''
              else ''https://'' @ d)
           else d))"
proof -
  have ex: "normalizeDomain ''localhost'' = ''http://localhost:3000''"
    "normalizeDomain ''utah'' = ''https://utah.instructure.com''"
    "normalizeDomain ''https://foo.com/'' = ''https://foo.com''"
    "normalizeDomain ''custom.edu'' = ''https://custom.edu.instructure.com''"
    by (simp_all add: normalizeDomain_def HasPrefix_def HasSuffix_def TrimSuffix_def)
  have gen: "normalizeDomain d =
        strip_slash
          (if \<not> prefix ''http'' d then
             (if \<not> suffix ''com'' (''https://'' @ d) \<and> \<not> suffix ''/'' (''https://'' @ d)
              then (''https://'' @ d) @ ''.instructure.com''
              else ''https://'' @ d)
           else d)" if "d \<noteq> ''localhost''" for d
    using that
    by (simp add: normalizeDomain_def Let_def HasPrefix_prefix HasSuffix_suffix TrimSuffix_slash)
  from ex gen show ?thesis by blast
qed

theorem normalizeDomain_rules_witness:
  "''school/'' \<noteq> ''localhost'' \<and> normalizeDomain ''school/'' = ''https://school'' \<and>
   ''http://a.edu'' \<noteq> ''localhost'' \<and> normalizeDomain ''http://a.edu'' = ''http://a.edu'' \<and>
   ''byu'' \<noteq> ''localhost'' \<and> normalizeDomain ''byu'' = ''https://byu.instructure.com''"
proof -
  have g: "d \<noteq> ''localhost'' \<Longrightarrow>
      normalizeDomain d =
        strip_slash
          (if \<not> prefix ''http'' d then
             (if \<not> suffix ''com'' (''https://'' @ d) \<and> \<not> suffix ''/'' (''https://'' @ d)
              then (''https://'' @ d) @ ''.instructure.com''
              else ''https://'' @ d)
           else d)" for d
    using normalizeDomain_rules by blast
  show ?thesis
    using g [of "''school/''"] g [of "''http://a.edu''"] g [of "''byu''"]
    by (simp add: strip_slash_def suffix_to_prefix)
qed

subsection \<open>What each function leaves untouched\<close>

lemma configFromFile_world:
  "configFromFile w = (r, w') \<Longrightarrow>
     conf w' = conf w \<and> stdout w' = stdout w \<and> sent w' = sent w"
  by (auto simp: configFromFile_def log_Fatalln_def log_Print_def split: conf_file.splits)

lemma writeToFile_world:
  "writeToFile e c w = (r, w') \<Longrightarrow> stdout w' = stdout w \<and> sent w' = sent w"
  by (auto simp: writeToFile_def configFromFile_def log_Fatalln_def log_Print_def
        json_MarshalIndent_def ioutil_WriteFile_def Let_def
      split: conf_file.splits option.splits if_splits)

lemma mergeConfig_world:
  "mergeConfig fl stored w = (t, w') \<Longrightarrow>
     conf w' = conf w \<and> stdout w' = stdout w \<and> sent w' = sent w"
  by (auto simp: mergeConfig_def log_Print_def Let_def split: option.splits if_splits)

lemma errAndExit_world:
  "errAndExit msg w = (Inl Fatal, w\<lparr>stderr := stderr w @ [Usage, Log msg]\<rparr>)"
  by (simp add: errAndExit_def flag_Usage_def log_Fatalln_def log_Print_def)

subsection \<open>Presentation\<close>

lemma printGuidLines_stdout:
  "printGuidLines guids w =
     w\<lparr>stdout := stdout w @ concat (map (\<lambda>g. igGuid g @ '' - '' @ igTitle g @ nl) guids)\<rparr>"
  by (induction guids arbitrary: w) (simp_all add: fmt_Print_def)

lemma printImportableGuids_stdout:
  "printImportableGuids guids w =
     w\<lparr>stdout := stdout w @ ''GUIDs available to import:'' @ nl @ nl @
                 concat (map (\<lambda>g. igGuid g @ '' - '' @ igTitle g @ nl) guids)\<rparr>"
  by (simp add: printImportableGuids_def printGuidLines_stdout fmt_Print_def)

lemma printIssues_stdout:
  "printIssues issues w = w\<lparr>stdout := stdout w @ concat (map issue_lines issues)\<rparr>"
  by (induction issues arbitrary: w) (simp_all add: fmt_Print_def issue_lines_def)

text \<open>
  A status with a non-zero id is printed as its heading, the workflow state, the issue
  count and the five lines of every issue, in the order of the list.
\<close>

lemma printMigrationStatus_nonzero:
  "msId mstatus \<noteq> 0 \<Longrightarrow>
   printMigrationStatus mstatus w =
     w\<lparr>stdout := stdout w @
        nl @ ''Migration status for migration '' @ [CHR 0x27] @ fmt_d (msId mstatus)
           @ [CHR 0x27] @ '':'' @ nl @
        '' - Workflow state: '' @ msWorkflowState mstatus @ nl @
        '' - Migration issues count: '' @ fmt_d (msMigrationIssuesCount mstatus) @ nl @
        '' - Migration issues:'' @ nl @
        concat (map issue_lines (msMigrationIssues mstatus))\<rparr>"
  by (simp add: printMigrationStatus_def printIssues_stdout fmt_Print_def)

lemma printMigrationStatus_zero:
  "msId mstatus = 0 \<Longrightarrow>
   printMigrationStatus mstatus w =
     w\<lparr>stdout := stdout w @
        nl @ ''The server returned an error.  Are you sure that migration ID exists?'' @ nl\<rparr>"
  by (simp add: printMigrationStatus_def fmt_Print_def)

subsection \<open>The requests an operation sends\<close>

lemmas op_defs =
  getAvailable_def httpRequest_def availableReq_def importReq_def statusReq_def
  client_Do_def log_Fatalln_def log_Print_def writeToFile_def configFromFile_def
  json_MarshalIndent_def ioutil_WriteFile_def printImportableGuids_stdout
  printMigrationStatus_def printIssues_stdout printImportResults_def fmt_Print_def Let_def

lemmas run_defs =
  main_def mergeConfig_def verifyRequest_def errAndExit_def flag_Usage_def
  printAvailable_def getStatus_def importGuid_def
  getAvailable_def httpRequest_def
  client_Do_def log_Fatalln_def log_Print_def writeToFile_def configFromFile_def
  json_MarshalIndent_def ioutil_WriteFile_def printImportableGuids_def
  printMigrationStatus_def printImportResults_def fmt_Print_def Let_def
  normalizeDomain_def HasPrefix_def HasSuffix_def TrimSuffix_def fmt_d_def dec.simps
  demo_env_def start_def

lemma titleToGuid_find:
  "titleToGuid guids guid =
     (case find (\<lambda>v. igTitle v = guid) guids of Some v \<Rightarrow> igGuid v | None \<Rightarrow> guid)"
  by (induction guids) auto

lemma printAvailable_sent:
  assumes "printAvailable e req w = (r, w')"
  shows "sent w' = sent w \<or> sent w' = sent w @ [availableReq req]"
  using assms
  by (auto simp: printAvailable_def op_defs
      split: option.splits reply.splits conf_file.splits if_splits)

lemma getStatus_sent:
  assumes "getStatus e req n w = (r, w')"
  shows "sent w' = sent w \<or> sent w' = sent w @ [statusReq req n]"
  using assms
  by (auto simp: getStatus_def op_defs
      split: option.splits reply.splits conf_file.splits if_splits)

lemma importGuid_sent:
  assumes "importGuid e req g w = (r, w')"
  shows "sent w' = sent w \<or> sent w' = sent w @ [availableReq req] \<or>
         (\<exists>guids. Do_available e (availableReq req) = Decoded guids \<and>
            sent w' = sent w @ [availableReq req, importReq req (titleToGuid guids g)])"
  using assms
  by (auto simp: importGuid_def op_defs
      split: option.splits reply.splits conf_file.splits if_splits)

subsection \<open>The entry point, case by case\<close>

lemma main_config_fatal:
  "configFromFile w = (Inl x, w0) \<Longrightarrow> main e fl w = (Inl x, w0)"
  by (simp add: main_def)

lemma main_verify_fails:
  assumes "configFromFile w = (Inr stored, w0)"
      and "mergeConfig fl stored w0 = ((apikey, status, domain), w1)"
      and "apikey = '''' \<or> domain = ''''"
  shows "main e fl w =
           (Inl Fatal,
            w1\<lparr>stderr := stderr w1 @
                 [Usage, Log (if apikey = '''' then ''You need a valid canvas API key''
                              else ''You must supply a canvas domain'')]\<rparr>)"
  using assms by (auto simp: main_def verifyRequest_def errAndExit_world)

lemma main_dispatch:
  assumes "configFromFile w = (Inr stored, w0)"
      and "mergeConfig fl stored w0 = ((apikey, status, domain), w1)"
      and "apikey \<noteq> ''''" and "domain \<noteq> ''''"
  shows "main e fl w =
           (if flag_available fl then printAvailable e (mainRequest apikey domain) w1
            else if flag_guid fl \<noteq> '''' then
              importGuid e (mainRequest apikey domain) (flag_guid fl) w1
            else if status \<noteq> 0 then getStatus e (mainRequest apikey domain) status w1
            else log_Fatalln
                   ''No recent migration ID, and none specified to query status on'' w1)"
  using assms by (simp add: main_def verifyRequest_def mainRequest_def)

lemma main_sent:
  "sent (snd (main e fl w)) = sent w \<or>
   (\<exists>req. sent (snd (main e fl w)) = sent w @ [availableReq req]) \<or>
   (\<exists>req g. sent (snd (main e fl w)) = sent w @ [availableReq req, importReq req g]) \<or>
   (\<exists>req n. sent (snd (main e fl w)) = sent w @ [statusReq req n])"
proof -
  obtain r0 w0 where c: "configFromFile w = (r0, w0)" by (cases "configFromFile w")
  note cw = configFromFile_world [OF c]
  show ?thesis
  proof (cases r0)
    case (Inl x)
    with c cw show ?thesis by (simp add: main_config_fatal)
  next
    case (Inr stored)
    obtain apikey status domain w1
      where m: "mergeConfig fl stored w0 = ((apikey, status, domain), w1)"
      by (cases "mergeConfig fl stored w0") auto
    from cw mergeConfig_world [OF m]
    have s1: "sent w1 = sent w" by simp
    show ?thesis
    proof (cases "apikey = '''' \<or> domain = ''''")
      case True
      from main_verify_fails [OF c [unfolded Inr] m True, of e] s1
      show ?thesis by simp
    next
      case False
      then have ne: "apikey \<noteq> ''''" "domain \<noteq> ''''" by auto
      note d = main_dispatch [OF c [unfolded Inr] m ne, of e]
      let ?req = "mainRequest apikey domain"
      consider (a) "flag_available fl"
        | (g) "\<not> flag_available fl" "flag_guid fl \<noteq> ''''"
        | (s) "\<not> flag_available fl" "flag_guid fl = ''''" "status \<noteq> 0"
        | (n) "\<not> flag_available fl" "flag_guid fl = ''''" "status = 0"
        by blast
      then show ?thesis
      proof cases
        case a
        with d have "main e fl w = printAvailable e ?req w1" by simp
        with printAvailable_sent [OF surjective_pairing, of e ?req w1] s1
        show ?thesis by auto
      next
        case g
        with d have "main e fl w = importGuid e ?req (flag_guid fl) w1" by simp
        with importGuid_sent [OF surjective_pairing, of e ?req "flag_guid fl" w1] s1
        show ?thesis by auto
      next
        case s
        with d have "main e fl w = getStatus e ?req status w1" by simp
        with getStatus_sent [OF surjective_pairing, of e ?req status w1] s1
        show ?thesis by auto
      next
        case n
        with d s1 show ?thesis by (simp add: log_Fatalln_def log_Print_def)
      qed
    qed
  qed
qed

subsection \<open>The configuration store\<close>

text \<open>
  With a stored configuration and a write that succeeds, \<^verbatim>\<open>writeToFile\<close> stores the
  value it was given, with the api key emptied when the stored api key was empty, and
  with the strings as JSON stores them.
\<close>

lemma writeToFile_retention:
  assumes "conf w = JsonFile current" and "WriteFile_error e = None"
  shows "writeToFile e c w =
           (Inr (), w\<lparr>conf := JsonFile
              \<lparr>cfApikey = (if cfApikey current = '''' then '''' else json_string (cfApikey c)),
               cfMigrationId = cfMigrationId c,
               cfDomain = json_string (cfDomain c)\<rparr>\<rparr>)"
  using assms
  by (simp add: writeToFile_def configFromFile_def json_MarshalIndent_def ioutil_WriteFile_def)


text \<open>
  Claim C1 says that saving the configuration when no prior configuration file exists
  produces a file whose api key is empty. The code does not get that far: with no file,
  \<^verbatim>\<open>configFromFile\<close> returns nil, \<^verbatim>\<open>writeToFile\<close> reads \<^verbatim>\<open>current.Apikey\<close>
  through the nil pointer and the process panics; the file is still missing afterwards,
  whatever configuration value was to be saved.
\<close>

theorem writeToFile_first_run_panics:
  "writeToFile e c (w\<lparr>conf := NoFile\<rparr>) = (Inl Panic, w\<lparr>conf := NoFile\<rparr>)"
  by (simp add: writeToFile_def configFromFile_def)

text \<open>
  Claim C2 says that a failed file write ends the program with a fatal error. The code
  drops the error of \<^verbatim>\<open>ioutil.WriteFile\<close>: when the write fails with any error \<open>err\<close>,
  leaving the file in any state \<open>left\<close>, \<^verbatim>\<open>writeToFile\<close> returns normally, logs
  nothing, and the process goes on to exit with status \<open>0\<close>.
\<close>

theorem writeToFile_write_error_dropped:
  "writeToFile (e\<lparr>WriteFile_error := Some (err, left)\<rparr>) c (w\<lparr>conf := JsonFile current\<rparr>)
     = (Inr (), w\<lparr>conf := left\<rparr>) \<and>
   exit_status (fst (writeToFile (e\<lparr>WriteFile_error := Some (err, left)\<rparr>) c
                       (w\<lparr>conf := JsonFile current\<rparr>))) = 0"
  by (simp add: writeToFile_def configFromFile_def json_MarshalIndent_def ioutil_WriteFile_def)

subsection \<open>Merging flags and stored configuration\<close>

text \<open>
  Claim C6. For the api key, the domain and the migration id alike: a flag that holds a
  non-zero value is the merged value; a flag at its zero value (the program cannot tell
  an omitted flag from one given as empty or \<open>0\<close>) gives the stored value when a
  configuration file was read, and the zero value when there was none.
\<close>

theorem mergeConfig_precedence:
  assumes "mergeConfig fl stored w = ((apikey, status, domain), w')"
  shows "(flag_apikey fl \<noteq> '''' \<longrightarrow> apikey = flag_apikey fl) \<and>
         (flag_apikey fl = '''' \<longrightarrow>
            apikey = (case stored of Some cf \<Rightarrow> cfApikey cf | None \<Rightarrow> '''')) \<and>
         (flag_domain fl \<noteq> '''' \<longrightarrow> domain = flag_domain fl) \<and>
         (flag_domain fl = '''' \<longrightarrow>
            domain = (case stored of Some cf \<Rightarrow> cfDomain cf | None \<Rightarrow> '''')) \<and>
         (flag_status fl \<noteq> 0 \<longrightarrow> status = flag_status fl) \<and>
         (flag_status fl = 0 \<longrightarrow>
            status = (case stored of Some cf \<Rightarrow> cfMigrationId cf | None \<Rightarrow> 0))"
  using assms
  by (cases stored) (auto simp: mergeConfig_def Let_def split: if_splits prod.splits)

text \<open>
  The api key flag \<^verbatim>\<open>k\<close> wins over the stored key; the omitted domain and migration id
  come from the stored configuration, and stay empty and zero when there is none.
\<close>

theorem mergeConfig_precedence_witness:
  "fst (mergeConfig \<lparr>flag_apikey = ''k'', flag_domain = '''', flag_status = 0,
                     flag_available = False, flag_guid = ''''\<rparr>
          (Some \<lparr>cfApikey = ''old'', cfMigrationId = 7, cfDomain = ''utah''\<rparr>) (start NoFile))
     = (''k'', 7, ''utah'') \<and>
   fst (mergeConfig \<lparr>flag_apikey = ''k'', flag_domain = '''', flag_status = 0,
                     flag_available = False, flag_guid = ''''\<rparr> None (start NoFile))
     = (''k'', 0, '''') \<and>
   fst (mergeConfig \<lparr>flag_apikey = '''', flag_domain = ''byu'', flag_status = 9,
                     flag_available = False, flag_guid = ''''\<rparr>
          (Some \<lparr>cfApikey = ''old'', cfMigrationId = 7, cfDomain = ''utah''\<rparr>) (start NoFile))
     = (''old'', 9, ''byu'')"
proof -
  have p: "fst (mergeConfig fl stored (start NoFile)) =
      (if flag_apikey fl \<noteq> '''' then flag_apikey fl
       else case stored of Some cf \<Rightarrow> cfApikey cf | None \<Rightarrow> '''',
       if flag_status fl \<noteq> 0 then flag_status fl
       else case stored of Some cf \<Rightarrow> cfMigrationId cf | None \<Rightarrow> 0,
       if flag_domain fl \<noteq> '''' then flag_domain fl
       else case stored of Some cf \<Rightarrow> cfDomain cf | None \<Rightarrow> '''')" for fl stored
  proof -
    obtain a s d w' where m: "mergeConfig fl stored (start NoFile) = ((a, s, d), w')"
      by (cases "mergeConfig fl stored (start NoFile)") auto
    from mergeConfig_precedence [OF m] m show ?thesis by simp
  qed
  show ?thesis by (simp add: p)
qed

subsection \<open>Listing the available GUIDs\<close>

text \<open>
  Claim C7, as amended. Claim C7 says that the configuration persisted after listing keeps
  the api key of the request. That fails on a stored configuration whose api key is empty:
  the key is then emptied before the write, by the rule that a key is only stored for a
  user who already stores one. What holds: for every list-available invocation whose
  response decodes, the heading is printed and then one line \<^verbatim>\<open><guid> - <title>\<close> per
  entry, in the order received (for the entries \<^verbatim>\<open>g1\<close>/\<^verbatim>\<open>Math\<close> and
  \<^verbatim>\<open>g2\<close>/\<^verbatim>\<open>Science\<close> the lines \<^verbatim>\<open>g1 - Math\<close> and \<^verbatim>\<open>g2 - Science\<close>); and when a
  stored configuration exists and the file write succeeds, the run ends normally and the
  persisted configuration has the migration id of the stored configuration unchanged, the
  domain of the request as JSON stores it, and the api key of the request as JSON stores
  it if the stored api key was non-empty, the empty api key otherwise. JSON stores a string
  with U+FFFD in place of every byte that is not part of a valid UTF-8 encoding; an api
  key and a domain made of ASCII bytes are therefore persisted exactly.
\<close>

theorem printAvailable_persists:
  assumes nr: "NewRequest_error e ''GET'' (hURL (availableReq req)) = None"
      and da: "Do_available e (availableReq req) = Decoded guids"
  shows "stdout (snd (printAvailable e req w)) =
           stdout w @ ''GUIDs available to import:'' @ nl @ nl @
           concat (map (\<lambda>g. igGuid g @ '' - '' @ igTitle g @ nl) guids) \<and>
         (guids = [\<lparr>igTitle = ''Math'', igGuid = ''g1''\<rparr>, \<lparr>igTitle = ''Science'', igGuid = ''g2''\<rparr>]
            \<longrightarrow> stdout (snd (printAvailable e req w)) =
                  stdout w @ ''GUIDs available to import:'' @ nl @ nl @
                  ''g1 - Math'' @ nl @ ''g2 - Science'' @ nl) \<and>
         (\<forall>stored. conf w = JsonFile stored \<and> WriteFile_error e = None \<longrightarrow>
            fst (printAvailable e req w) = Inr () \<and>
            conf (snd (printAvailable e req w)) =
              JsonFile \<lparr>cfApikey = (if cfApikey stored = '''' then ''''
                                    else json_string (rqApikey req)),
                        cfMigrationId = cfMigrationId stored,
                        cfDomain = json_string (rqDomain req)\<rparr> \<and>
            ((\<forall>c \<in> set (rqApikey req @ rqDomain req). (of_char c :: nat) < 0x80) \<longrightarrow>
             conf (snd (printAvailable e req w)) =
               JsonFile \<lparr>cfApikey = (if cfApikey stored = '''' then '''' else rqApikey req),
                         cfMigrationId = cfMigrationId stored,
                         cfDomain = rqDomain req\<rparr>))"
proof -
  have out: "stdout (snd (printAvailable e req w)) =
           stdout w @ ''GUIDs available to import:'' @ nl @ nl @
           concat (map (\<lambda>g. igGuid g @ '' - '' @ igTitle g @ nl) guids)"
    using nr da
    by (auto simp: printAvailable_def op_defs
        split: option.splits conf_file.splits)
  have ex: "stdout (snd (printAvailable e req w)) =
                  stdout w @ ''GUIDs available to import:'' @ nl @ nl @
                  ''g1 - Math'' @ nl @ ''g2 - Science'' @ nl"
    if "guids = [\<lparr>igTitle = ''Math'', igGuid = ''g1''\<rparr>, \<lparr>igTitle = ''Science'', igGuid = ''g2''\<rparr>]"
    using out that by simp
  have keep: "fst (printAvailable e req w) = Inr () \<and>
            conf (snd (printAvailable e req w)) =
              JsonFile \<lparr>cfApikey = (if cfApikey stored = '''' then ''''
                                    else json_string (rqApikey req)),
                        cfMigrationId = cfMigrationId stored,
                        cfDomain = json_string (rqDomain req)\<rparr>"
    if "conf w = JsonFile stored" "WriteFile_error e = None" for stored
    using nr da that
    by (simp add: printAvailable_def op_defs)
  have ascii: "conf (snd (printAvailable e req w)) =
               JsonFile \<lparr>cfApikey = (if cfApikey stored = '''' then '''' else rqApikey req),
                         cfMigrationId = cfMigrationId stored,
                         cfDomain = rqDomain req\<rparr>"
    if "conf w = JsonFile stored" "WriteFile_error e = None"
      and a: "\<forall>c \<in> set (rqApikey req @ rqDomain req). (of_char c :: nat) < 0x80" for stored
  proof -
    from a have "json_string (rqApikey req) = rqApikey req"
      "json_string (rqDomain req) = rqDomain req"
      by (simp_all add: json_string_ascii)
    with keep [OF that(1,2)] show ?thesis by simp
  qed
  from out ex keep ascii show ?thesis by blast
qed

text \<open>
  A run against a stored configuration that already holds a key: the two lines are
  printed and the new key \<^verbatim>\<open>k\<close> is stored with the old migration id \<open>7\<close>. With the
  byte \<open>FF\<close> after the \<^verbatim>\<open>k\<close>, the stored key ends in the bytes \<open>EF BF BD\<close> instead.
\<close>

theorem printAvailable_persists_witness:
  "printAvailable demo_env
        \<lparr>rqBody = '''', rqApikey = ''k'', rqDomain = ''https://utah.instructure.com'',
         rqMethod = '''', rqEndpoint = ''''\<rparr>
        (start (JsonFile \<lparr>cfApikey = ''old'', cfMigrationId = 7, cfDomain = ''utah''\<rparr>))
   = (Inr (),
      \<lparr>conf = JsonFile \<lparr>cfApikey = ''k'', cfMigrationId = 7,
                         cfDomain = ''https://utah.instructure.com''\<rparr>,
       stdout = ''GUIDs available to import:'' @ nl @ nl @
                ''g1 - Math'' @ nl @ ''g2 - Science'' @ nl,
       stderr = [Log ''Requesting available guids from https://utah.instructure.com/api/v1/global/outcomes_import/available''],
       sent = [\<lparr>hMethod = ''GET'',
                hURL = ''https://utah.instructure.com/api/v1/global/outcomes_import/available'',
                hBody = '''', hAuthorization = ''Bearer k''\<rparr>]\<rparr>) \<and>
   conf (snd (printAvailable demo_env
        \<lparr>rqBody = '''', rqApikey = ''k'' @ [CHR 0xFF],
         rqDomain = ''https://utah.instructure.com'', rqMethod = '''', rqEndpoint = ''''\<rparr>
        (start (JsonFile \<lparr>cfApikey = ''old'', cfMigrationId = 7, cfDomain = ''utah''\<rparr>))))
   = JsonFile \<lparr>cfApikey = ''k'' @ [CHR 0xEF, CHR 0xBF, CHR 0xBD], cfMigrationId = 7,
               cfDomain = ''https://utah.instructure.com''\<rparr>"
proof -
  let ?req = "\<lparr>rqBody = '''', rqApikey = ''k'', rqDomain = ''https://utah.instructure.com'',
         rqMethod = '''', rqEndpoint = ''''\<rparr>"
  let ?rex = "\<lparr>rqBody = '''', rqApikey = ''k'' @ [CHR 0xFF],
         rqDomain = ''https://utah.instructure.com'', rqMethod = '''', rqEndpoint = ''''\<rparr>"
  let ?w = "start (JsonFile \<lparr>cfApikey = ''old'', cfMigrationId = 7, cfDomain = ''utah''\<rparr>)"
  have nr: "NewRequest_error demo_env ''GET'' (hURL (availableReq r)) = None" for r
    by (simp add: demo_env_def)
  have da: "Do_available demo_env (availableReq r) =
      Decoded [\<lparr>igTitle = ''Math'', igGuid = ''g1''\<rparr>, \<lparr>igTitle = ''Science'', igGuid = ''g2''\<rparr>]"
    for r
    by (simp add: demo_env_def)
  have cw: "conf ?w = JsonFile \<lparr>cfApikey = ''old'', cfMigrationId = 7, cfDomain = ''utah''\<rparr>"
    "WriteFile_error demo_env = None"
    by (simp_all add: demo_env_def start_def)
  have p: "fst (printAvailable demo_env ?req ?w) = Inr () \<and>
        conf (snd (printAvailable demo_env ?req ?w)) =
          JsonFile \<lparr>cfApikey = ''k'', cfMigrationId = 7, cfDomain = ''https://utah.instructure.com''\<rparr> \<and>
        stdout (snd (printAvailable demo_env ?req ?w)) = ''GUIDs available to import:'' @ nl @ nl @
                ''g1 - Math'' @ nl @ ''g2 - Science'' @ nl"
    using printAvailable_persists [OF nr da, of ?req ?w] cw by (simp add: start_def)
  have q: "conf (snd (printAvailable demo_env ?rex ?w)) =
          JsonFile \<lparr>cfApikey = ''k'' @ [CHR 0xEF, CHR 0xBF, CHR 0xBD], cfMigrationId = 7,
                    cfDomain = ''https://utah.instructure.com''\<rparr>"
    using printAvailable_persists [OF nr da, of ?rex ?w] cw
    by (simp add: DecodeRune_size_def leadByte_def)
  have rest: "stderr (snd (printAvailable demo_env ?req ?w)) =
        [Log ''Requesting available guids from https://utah.instructure.com/api/v1/global/outcomes_import/available''] \<and>
      sent (snd (printAvailable demo_env ?req ?w)) = [\<lparr>hMethod = ''GET'',
                hURL = ''https://utah.instructure.com/api/v1/global/outcomes_import/available'',
                hBody = '''', hAuthorization = ''Bearer k''\<rparr>]"
    by (simp add: run_defs)
  from p rest have "printAvailable demo_env ?req ?w
   = (Inr (),
      \<lparr>conf = JsonFile \<lparr>cfApikey = ''k'', cfMigrationId = 7,
                         cfDomain = ''https://utah.instructure.com''\<rparr>,
       stdout = ''GUIDs available to import:'' @ nl @ nl @
                ''g1 - Math'' @ nl @ ''g2 - Science'' @ nl,
       stderr = [Log ''Requesting available guids from https://utah.instructure.com/api/v1/global/outcomes_import/available''],
       sent = [\<lparr>hMethod = ''GET'',
                hURL = ''https://utah.instructure.com/api/v1/global/outcomes_import/available'',
                hBody = '''', hAuthorization = ''Bearer k''\<rparr>]\<rparr>)"
    by (cases "printAvailable demo_env ?req ?w") auto
  with q show ?thesis by simp
qed

text \<open>
  Against claim C7 as stated: the request carries the api key \<^verbatim>\<open>k\<close>, the stored
  configuration has an empty api key, and the persisted configuration has an empty api key.
\<close>

theorem printAvailable_key_counterexample:
  "conf (snd (printAvailable demo_env
        \<lparr>rqBody = '''', rqApikey = ''k'', rqDomain = ''https://utah.instructure.com'',
         rqMethod = '''', rqEndpoint = ''''\<rparr>
        (start (JsonFile \<lparr>cfApikey = '''', cfMigrationId = 7, cfDomain = ''utah''\<rparr>))))
   = JsonFile \<lparr>cfApikey = '''', cfMigrationId = 7, cfDomain = ''https://utah.instructure.com''\<rparr> \<and>
   conf (snd (printAvailable demo_env
        \<lparr>rqBody = '''', rqApikey = ''k'', rqDomain = ''https://utah.instructure.com'',
         rqMethod = '''', rqEndpoint = ''''\<rparr>
        (start (JsonFile \<lparr>cfApikey = '''', cfMigrationId = 7, cfDomain = ''utah''\<rparr>))))
   \<noteq> JsonFile \<lparr>cfApikey = ''k'', cfMigrationId = 7, cfDomain = ''https://utah.instructure.com''\<rparr>"
  by (simp add: run_defs)

subsection \<open>Importing a GUID\<close>

text \<open>
  Claim C4. An import sends its requests in a fixed order: nothing, or the request for the
  available list alone, or that request followed by the POST; the POST never goes first,
  also when the supplied value is a raw GUID. When both requests can be built and the list
  decodes, both are sent, and the body of the POST is \<^verbatim>\<open>guid=\<close> followed by the guid
  of the first entry of the fetched list whose title equals the supplied value, or by the
  supplied value itself when no entry has that title.
\<close>

theorem importGuid_title_lookup:
  assumes run: "importGuid e req g w = (r, w')"
  shows "(sent w' = sent w \<or> sent w' = sent w @ [availableReq req] \<or>
          (\<exists>guids. Do_available e (availableReq req) = Decoded guids \<and>
             sent w' = sent w @ [availableReq req,
               importReq req (case find (\<lambda>v. igTitle v = g) guids of
                                Some v \<Rightarrow> igGuid v | None \<Rightarrow> g)])) \<and>
         (\<forall>guids.
            NewRequest_error e ''GET'' (hURL (availableReq req)) = None \<and>
            Do_available e (availableReq req) = Decoded guids \<and>
            NewRequest_error e ''POST'' (hURL (importReq req g)) = None \<longrightarrow>
            sent w' = sent w @ [availableReq req,
               importReq req (case find (\<lambda>v. igTitle v = g) guids of
                                Some v \<Rightarrow> igGuid v | None \<Rightarrow> g)])"
proof -
  have a: "sent w' = sent w \<or> sent w' = sent w @ [availableReq req] \<or>
          (\<exists>guids. Do_available e (availableReq req) = Decoded guids \<and>
             sent w' = sent w @ [availableReq req, importReq req (titleToGuid guids g)])"
    using run by (rule importGuid_sent)
  have b: "sent w' = sent w @ [availableReq req, importReq req (titleToGuid guids g)]"
    if "NewRequest_error e ''GET'' (hURL (availableReq req)) = None"
       "Do_available e (availableReq req) = Decoded guids"
       "NewRequest_error e ''POST'' (hURL (importReq req g)) = None" for guids
    using run that
    by (auto simp: importGuid_def op_defs
        split: option.splits reply.splits conf_file.splits if_splits)
  from a b show ?thesis unfolding titleToGuid_find by blast
qed

text \<open>
  The title \<^verbatim>\<open>Science\<close> is sent as \<^verbatim>\<open>guid=g2\<close>; the value \<^verbatim>\<open>g7\<close>, which is no
  title, is sent unchanged, after the list was fetched all the same.
\<close>

theorem importGuid_title_lookup_witness:
  "sent (snd (importGuid demo_env
        \<lparr>rqBody = '''', rqApikey = ''k'', rqDomain = ''http://localhost:3000'',
         rqMethod = '''', rqEndpoint = ''''\<rparr> ''Science'' (start NoFile)))
     = [\<lparr>hMethod = ''GET'', hURL = ''http://localhost:3000/api/v1/global/outcomes_import/available'',
         hBody = '''', hAuthorization = ''Bearer k''\<rparr>,
        \<lparr>hMethod = ''POST'', hURL = ''http://localhost:3000/api/v1/global/outcomes_import/'',
         hBody = ''guid=g2'', hAuthorization = ''Bearer k''\<rparr>] \<and>
   sent (snd (importGuid demo_env
        \<lparr>rqBody = '''', rqApikey = ''k'', rqDomain = ''http://localhost:3000'',
         rqMethod = '''', rqEndpoint = ''''\<rparr> ''g7'' (start NoFile)))
     = [\<lparr>hMethod = ''GET'', hURL = ''http://localhost:3000/api/v1/global/outcomes_import/available'',
         hBody = '''', hAuthorization = ''Bearer k''\<rparr>,
        \<lparr>hMethod = ''POST'', hURL = ''http://localhost:3000/api/v1/global/outcomes_import/'',
         hBody = ''guid=g7'', hAuthorization = ''Bearer k''\<rparr>]"
proof -
  let ?req = "\<lparr>rqBody = '''', rqApikey = ''k'', rqDomain = ''http://localhost:3000'',
         rqMethod = '''', rqEndpoint = ''''\<rparr>"
  have t: "sent (snd (importGuid demo_env ?req g (start NoFile))) =
           sent (start NoFile) @ [availableReq ?req,
               importReq ?req (case find (\<lambda>v. igTitle v = g)
                     [\<lparr>igTitle = ''Math'', igGuid = ''g1''\<rparr>,
                      \<lparr>igTitle = ''Science'', igGuid = ''g2''\<rparr>] of
                                Some v \<Rightarrow> igGuid v | None \<Rightarrow> g)]" for g
    using importGuid_title_lookup [of demo_env ?req g "start NoFile"
        "fst (importGuid demo_env ?req g (start NoFile))"
        "snd (importGuid demo_env ?req g (start NoFile))"]
    by (simp add: demo_env_def)
  show ?thesis
    using t [of "''Science''"] t [of "''g7''"]
    by (simp add: importReq_def availableReq_def start_def)
qed

text \<open>
  With a stored configuration and a write that succeeds, an import whose answer decodes
  prints the returned migration id and stores it.
\<close>

lemma importGuid_with_stored_config:
  assumes "NewRequest_error e ''GET'' (hURL (availableReq req)) = None"
      and "Do_available e (availableReq req) = Decoded guids"
      and "NewRequest_error e ''POST'' (hURL (importReq req g)) = None"
      and "Do_import e (importReq req (titleToGuid guids g)) = Decoded nimport"
      and "conf w = JsonFile stored" and "WriteFile_error e = None"
  shows "fst (importGuid e req g w) = Inr () \<and>
         stdout (snd (importGuid e req g w)) =
           stdout w @ nl @ ''Migration ID is '' @ fmt_d (niMigrationId nimport) @ nl \<and>
         conf (snd (importGuid e req g w)) =
           JsonFile \<lparr>cfApikey = (if cfApikey stored = '''' then ''''
                                 else json_string (rqApikey req)),
                     cfMigrationId = niMigrationId nimport,
                     cfDomain = json_string (rqDomain req)\<rparr>"
  using assms by (simp add: importGuid_def op_defs)

text \<open>
  Claim C8 says that every import whose answer decodes prints the returned migration id
  and persists it. On a first run (no configuration file) the code prints the id and
  then panics in \<^verbatim>\<open>writeToFile\<close>, on the nil pointer it dereferences when no file exists: the process ends with
  exit status \<open>2\<close> and nothing is persisted. The run below is
  \<^verbatim>\<open>-apikey k -domain utah -guid Math\<close> against a server that answers the import with
  migration id \<open>42\<close>.
\<close>

theorem import_first_run_panics:
  "main demo_env
     \<lparr>flag_apikey = ''k'', flag_domain = ''utah'', flag_status = 0,
      flag_available = False, flag_guid = ''Math''\<rparr>
     (start NoFile)
   = (Inl Panic,
      \<lparr>conf = NoFile,
       stdout = nl @ ''Migration ID is 42'' @ nl,
       stderr = [Log ''Requesting available guids from https://utah.instructure.com/api/v1/global/outcomes_import/available'',
                 Log ''Requesting import of GUID g1''],
       sent = [\<lparr>hMethod = ''GET'',
                hURL = ''https://utah.instructure.com/api/v1/global/outcomes_import/available'',
                hBody = '''', hAuthorization = ''Bearer k''\<rparr>,
               \<lparr>hMethod = ''POST'',
                hURL = ''https://utah.instructure.com/api/v1/global/outcomes_import/'',
                hBody = ''guid=g1'', hAuthorization = ''Bearer k''\<rparr>]\<rparr>)"
  by (simp add: run_defs)

subsection \<open>Querying the status of a migration\<close>

text \<open>
  With a stored configuration and a write that succeeds, a status query whose answer
  decodes prints the status, ends normally and stores the queried migration id, whether
  the id in the answer is zero or not.
\<close>

lemma getStatus_with_stored_config:
  assumes "NewRequest_error e ''GET'' (hURL (statusReq req n)) = None"
      and "Do_status e (statusReq req n) = Decoded mstatus"
      and "conf w = JsonFile stored" and "WriteFile_error e = None"
  shows "fst (getStatus e req n w) = Inr () \<and>
         stdout (snd (getStatus e req n w)) = stdout (printMigrationStatus mstatus w) \<and>
         conf (snd (getStatus e req n w)) =
           JsonFile \<lparr>cfApikey = (if cfApikey stored = '''' then ''''
                                 else json_string (rqApikey req)),
                     cfMigrationId = n,
                     cfDomain = json_string (rqDomain req)\<rparr>"

  using assms by (simp add: getStatus_def op_defs)

text \<open>
  Claim C5 says that a status query answered with id \<open>0\<close> prints the message, exits with
  status \<open>0\<close> and still persists the configuration. On a first run (no configuration
  file) the code prints the message and then panics in \<^verbatim>\<open>writeToFile\<close>, on the nil
  pointer it dereferences when no file exists: the process ends with exit status \<open>2\<close> and nothing is persisted.
  The run below is \<^verbatim>\<open>-apikey k -domain utah -status 42\<close> against a server that
  answers with id \<open>0\<close>.
\<close>

theorem status_unknown_id_first_run_panics:
  "main demo_env
     \<lparr>flag_apikey = ''k'', flag_domain = ''utah'', flag_status = 42,
      flag_available = False, flag_guid = ''''\<rparr>
     (start NoFile)
   = (Inl Panic,
      \<lparr>conf = NoFile,
       stdout = nl @ ''The server returned an error.  Are you sure that migration ID exists?'' @ nl,
       stderr = [Log ''Retrieving status for migration 42''],
       sent = [\<lparr>hMethod = ''GET'',
                hURL = ''https://utah.instructure.com/api/v1/global/outcomes_import/migration_status/42'',
                hBody = '''', hAuthorization = ''Bearer k''\<rparr>]\<rparr>) \<and>
   exit_status (fst (main demo_env
     \<lparr>flag_apikey = ''k'', flag_domain = ''utah'', flag_status = 42,
      flag_available = False, flag_guid = ''''\<rparr>
     (start NoFile))) = 2"
  by (simp add: run_defs)

subsection \<open>Choosing the operation\<close>

text \<open>
  Claim C9, as amended. Claim C9 says that the usage text is printed when no action
  resolves. The code prints it only when the api key or the domain is missing; with both
  present it logs one message and stops. What holds: every invocation sends the requests
  of at most one operation (none, the list request, the list request followed by an import,
  or one status request); and when the configuration loads, \<^verbatim>\<open>-available\<close> is not set,
  \<^verbatim>\<open>-guid\<close> is empty and the migration id is zero after the merge, the process ends
  fatally with exit status \<open>1\<close>, having sent no request, printed nothing to standard
  output and left the configuration file as it was; standard error then holds the usage
  text and a message if the api key or the domain is empty, and otherwise only the message
  that no migration id is known.
\<close>

theorem main_no_action:
  "(sent (snd (main e fl w)) = sent w \<or>
    (\<exists>req. sent (snd (main e fl w)) = sent w @ [availableReq req]) \<or>
    (\<exists>req g. sent (snd (main e fl w)) = sent w @ [availableReq req, importReq req g]) \<or>
    (\<exists>req n. sent (snd (main e fl w)) = sent w @ [statusReq req n])) \<and>
   (\<forall>stored w0 apikey status domain w1.
      configFromFile w = (Inr stored, w0) \<and>
      mergeConfig fl stored w0 = ((apikey, status, domain), w1) \<and>
      \<not> flag_available fl \<and> flag_guid fl = '''' \<and> status = 0 \<longrightarrow>
      fst (main e fl w) = Inl Fatal \<and>
      exit_status (fst (main e fl w)) = 1 \<and>
      sent (snd (main e fl w)) = sent w \<and>
      conf (snd (main e fl w)) = conf w \<and>
      stdout (snd (main e fl w)) = stdout w \<and>
      stderr (snd (main e fl w)) =
        stderr w1 @
        (if apikey = '''' then [Usage, Log ''You need a valid canvas API key'']
         else if domain = '''' then [Usage, Log ''You must supply a canvas domain'']
         else [Log ''No recent migration ID, and none specified to query status on'']))"
proof -
  have none: "fst (main e fl w) = Inl Fatal \<and>
      exit_status (fst (main e fl w)) = 1 \<and>
      sent (snd (main e fl w)) = sent w \<and>
      conf (snd (main e fl w)) = conf w \<and>
      stdout (snd (main e fl w)) = stdout w \<and>
      stderr (snd (main e fl w)) =
        stderr w1 @
        (if apikey = '''' then [Usage, Log ''You need a valid canvas API key'']
         else if domain = '''' then [Usage, Log ''You must supply a canvas domain'']
         else [Log ''No recent migration ID, and none specified to query status on''])"
    if c: "configFromFile w = (Inr stored, w0)"
      and m: "mergeConfig fl stored w0 = ((apikey, status, domain), w1)"
      and no: "\<not> flag_available fl" "flag_guid fl = ''''" "status = 0"
    for stored w0 apikey status domain w1
  proof -
    from configFromFile_world [OF c] mergeConfig_world [OF m]
    have same: "sent w1 = sent w" "conf w1 = conf w" "stdout w1 = stdout w" by simp_all
    show ?thesis
    proof (cases "apikey = '''' \<or> domain = ''''")
      case True
      from main_verify_fails [OF c m True, of e] same True show ?thesis by auto
    next
      case False
      then have ne: "apikey \<noteq> ''''" "domain \<noteq> ''''" by auto
      from main_dispatch [OF c m ne, of e] no same ne show ?thesis
        by (simp add: log_Fatalln_def log_Print_def)
    qed
  qed
  from main_sent [of e fl w] none show ?thesis by blast
qed

text \<open>
  A first run with an api key and a domain but no action: the process stops with the
  message alone. Without the api key, the usage text comes first.
\<close>

theorem main_no_action_witness:
  "configFromFile (start NoFile) = (Inr None, start NoFile) \<and>
   mergeConfig \<lparr>flag_apikey = ''k'', flag_domain = ''utah'', flag_status = 0,
                flag_available = False, flag_guid = ''''\<rparr> None (start NoFile)
     = ((''k'', 0, ''utah''), start NoFile) \<and>
   fst (main demo_env \<lparr>flag_apikey = ''k'', flag_domain = ''utah'', flag_status = 0,
                flag_available = False, flag_guid = ''''\<rparr> (start NoFile)) = Inl Fatal \<and>
   sent (snd (main demo_env \<lparr>flag_apikey = ''k'', flag_domain = ''utah'', flag_status = 0,
                flag_available = False, flag_guid = ''''\<rparr> (start NoFile))) = [] \<and>
   stderr (snd (main demo_env \<lparr>flag_apikey = ''k'', flag_domain = ''utah'', flag_status = 0,
                flag_available = False, flag_guid = ''''\<rparr> (start NoFile)))
     = [Log ''No recent migration ID, and none specified to query status on''] \<and>
   stderr (snd (main demo_env \<lparr>flag_apikey = '''', flag_domain = ''utah'', flag_status = 0,
                flag_available = False, flag_guid = ''''\<rparr> (start NoFile)))
     = [Usage, Log ''You need a valid canvas API key'']"
proof -
  let ?fl = "\<lparr>flag_apikey = ''k'', flag_domain = ''utah'', flag_status = 0,
                flag_available = False, flag_guid = ''''\<rparr>"
  let ?fe = "\<lparr>flag_apikey = '''', flag_domain = ''utah'', flag_status = 0,
                flag_available = False, flag_guid = ''''\<rparr>"
  have c: "configFromFile (start NoFile) = (Inr None, start NoFile)"
    by (simp add: configFromFile_def start_def)
  have m: "mergeConfig ?fl None (start NoFile) = ((''k'', 0, ''utah''), start NoFile)"
    by (simp add: mergeConfig_def)
  have m0: "mergeConfig ?fe None (start NoFile) = (('''', 0, ''utah''), start NoFile)"
    by (simp add: mergeConfig_def)
  have 1: "fst (main demo_env ?fl (start NoFile)) = Inl Fatal \<and>
        sent (snd (main demo_env ?fl (start NoFile))) = sent (start NoFile) \<and>
        stderr (snd (main demo_env ?fl (start NoFile))) = stderr (start NoFile) @
          [Log ''No recent migration ID, and none specified to query status on'']"
    using main_no_action [of demo_env ?fl "start NoFile"] c m by simp
  have 2: "stderr (snd (main demo_env ?fe (start NoFile))) = stderr (start NoFile) @
          [Usage, Log ''You need a valid canvas API key'']"
    using main_no_action [of demo_env ?fe "start NoFile"] c m0 by simp
  from 1 2 c m show ?thesis by (simp add: start_def)
qed

text \<open>
  Against claim C9 as stated: \<^verbatim>\<open>-apikey k -domain utah\<close> on a first run resolves to no
  action, and standard error holds the one logged message, not the usage text.
\<close>

theorem main_no_action_counterexample:
  "main demo_env
     \<lparr>flag_apikey = ''k'', flag_domain = ''utah'', flag_status = 0,
      flag_available = False, flag_guid = ''''\<rparr>
     (start NoFile)
   = (Inl Fatal,
      \<lparr>conf = NoFile, stdout = '''',
       stderr = [Log ''No recent migration ID, and none specified to query status on''],
       sent = []\<rparr>) \<and>
   Usage \<notin> set (stderr (snd (main demo_env
     \<lparr>flag_apikey = ''k'', flag_domain = ''utah'', flag_status = 0,
      flag_available = False, flag_guid = ''''\<rparr>
     (start NoFile))))"
  by (simp add: run_defs)

text \<open>
  Claim C10. Once the configuration is loaded and the merged api key and domain are not
  empty: with \<^verbatim>\<open>-available\<close> set, \<^verbatim>\<open>main\<close> is the list operation, whatever
  \<^verbatim>\<open>-guid\<close> and the migration id are, and sends at most the list request; without
  \<^verbatim>\<open>-available\<close> and with a non-empty \<^verbatim>\<open>-guid\<close>, it is the import, whatever the
  migration id is, and sends at most the list request and one import request; and only
  without both does a non-zero migration id make it the status query, which sends at most
  its one status request.
\<close>

theorem main_priority:
  assumes "configFromFile w = (Inr stored, w0)"
      and "mergeConfig fl stored w0 = ((apikey, status, domain), w1)"
      and "apikey \<noteq> ''''" and "domain \<noteq> ''''"
  shows "(flag_available fl \<longrightarrow>
            main e fl w = printAvailable e (mainRequest apikey domain) w1 \<and>
            (sent (snd (main e fl w)) = sent w \<or>
             sent (snd (main e fl w)) = sent w @ [availableReq (mainRequest apikey domain)])) \<and>
         (\<not> flag_available fl \<and> flag_guid fl \<noteq> '''' \<longrightarrow>
            main e fl w = importGuid e (mainRequest apikey domain) (flag_guid fl) w1 \<and>
            (sent (snd (main e fl w)) = sent w \<or>
             sent (snd (main e fl w)) = sent w @ [availableReq (mainRequest apikey domain)] \<or>
             (\<exists>g. sent (snd (main e fl w)) =
                    sent w @ [availableReq (mainRequest apikey domain),
                              importReq (mainRequest apikey domain) g]))) \<and>
         (\<not> flag_available fl \<and> flag_guid fl = '''' \<and> status \<noteq> 0 \<longrightarrow>
            main e fl w = getStatus e (mainRequest apikey domain) status w1 \<and>
            (sent (snd (main e fl w)) = sent w \<or>
             sent (snd (main e fl w)) = sent w @ [statusReq (mainRequest apikey domain) status]))"
proof -
  let ?req = "mainRequest apikey domain"
  note d = main_dispatch [OF assms, of e]
  from configFromFile_world [OF assms(1)] mergeConfig_world [OF assms(2)]
  have s1: "sent w1 = sent w" by simp
  have a: "main e fl w = printAvailable e ?req w1 \<and>
            (sent (snd (main e fl w)) = sent w \<or>
             sent (snd (main e fl w)) = sent w @ [availableReq ?req])"
    if "flag_available fl"
    using that d printAvailable_sent [OF surjective_pairing, of e ?req w1] s1 by auto
  have g: "main e fl w = importGuid e ?req (flag_guid fl) w1 \<and>
            (sent (snd (main e fl w)) = sent w \<or>
             sent (snd (main e fl w)) = sent w @ [availableReq ?req] \<or>
             (\<exists>g. sent (snd (main e fl w)) = sent w @ [availableReq ?req, importReq ?req g]))"
    if "\<not> flag_available fl" "flag_guid fl \<noteq> ''''"
    using that d importGuid_sent [OF surjective_pairing, of e ?req "flag_guid fl" w1] s1 by auto
  have s: "main e fl w = getStatus e ?req status w1 \<and>
            (sent (snd (main e fl w)) = sent w \<or>
             sent (snd (main e fl w)) = sent w @ [statusReq ?req status])"
    if "\<not> flag_available fl" "flag_guid fl = ''''" "status \<noteq> 0"
    using that d getStatus_sent [OF surjective_pairing, of e ?req status w1] s1 by auto
  from a g s show ?thesis by blast
qed

text \<open>
  Three first runs that all carry \<^verbatim>\<open>-status 42\<close>: with \<^verbatim>\<open>-available\<close> and
  \<^verbatim>\<open>-guid Math\<close> only the list request is sent; with \<^verbatim>\<open>-guid Math\<close> alone the list
  request and the import; with neither, the status request.
\<close>

theorem main_priority_witness:
  "sent (snd (main demo_env
        \<lparr>flag_apikey = ''k'', flag_domain = ''localhost'', flag_status = 42,
         flag_available = True, flag_guid = ''Math''\<rparr> (start NoFile)))
     = [\<lparr>hMethod = ''GET'', hURL = ''http://localhost:3000/api/v1/global/outcomes_import/available'',
         hBody = '''', hAuthorization = ''Bearer k''\<rparr>] \<and>
   sent (snd (main demo_env
        \<lparr>flag_apikey = ''k'', flag_domain = ''localhost'', flag_status = 42,
         flag_available = False, flag_guid = ''Math''\<rparr> (start NoFile)))
     = [\<lparr>hMethod = ''GET'', hURL = ''http://localhost:3000/api/v1/global/outcomes_import/available'',
         hBody = '''', hAuthorization = ''Bearer k''\<rparr>,
        \<lparr>hMethod = ''POST'', hURL = ''http://localhost:3000/api/v1/global/outcomes_import/'',
         hBody = ''guid=g1'', hAuthorization = ''Bearer k''\<rparr>] \<and>
   sent (snd (main demo_env
        \<lparr>flag_apikey = ''k'', flag_domain = ''localhost'', flag_status = 42,
         flag_available = False, flag_guid = ''''\<rparr> (start NoFile)))
     = [\<lparr>hMethod = ''GET'',
         hURL = ''http://localhost:3000/api/v1/global/outcomes_import/migration_status/42'',
         hBody = '''', hAuthorization = ''Bearer k''\<rparr>]"
proof -
  let ?w = "start NoFile"
  let ?req = "mainRequest ''k'' ''localhost''"
  have c: "configFromFile ?w = (Inr None, ?w)"
    by (simp add: configFromFile_def start_def)
  have m: "mergeConfig \<lparr>flag_apikey = ''k'', flag_domain = ''localhost'', flag_status = 42,
         flag_available = a, flag_guid = g\<rparr> None ?w = ((''k'', 42, ''localhost''), ?w)" for a g
    by (simp add: mergeConfig_def)
  have k: "''k'' \<noteq> ''''" "''localhost'' \<noteq> ''''" by simp_all
  have 1: "main demo_env \<lparr>flag_apikey = ''k'', flag_domain = ''localhost'', flag_status = 42,
         flag_available = True, flag_guid = ''Math''\<rparr> ?w = printAvailable demo_env ?req ?w"
    using main_priority [OF c m [of True "''Math''"] k, where e = demo_env] by simp
  have 2: "main demo_env \<lparr>flag_apikey = ''k'', flag_domain = ''localhost'', flag_status = 42,
         flag_available = False, flag_guid = ''Math''\<rparr> ?w = importGuid demo_env ?req ''Math'' ?w"
    using main_priority [OF c m [of False "''Math''"] k, where e = demo_env] by simp
  have 3: "main demo_env \<lparr>flag_apikey = ''k'', flag_domain = ''localhost'', flag_status = 42,
         flag_available = False, flag_guid = ''''\<rparr> ?w = getStatus demo_env ?req 42 ?w"
    using main_priority [OF c m [of False "''''"] k, where e = demo_env] by simp
  show ?thesis
    unfolding 1 2 3
    by (simp add: mainRequest_def printAvailable_def importGuid_def getStatus_def
          getAvailable_def httpRequest_def client_Do_def log_Fatalln_def log_Print_def
          writeToFile_def configFromFile_def printImportableGuids_def
          printMigrationStatus_def printImportResults_def fmt_Print_def Let_def
          normalizeDomain_def fmt_d_def dec.simps demo_env_def start_def)
qed

end
